theory Spec2Isabelle
  imports Main "HOL-Library.AList" "HOL-Library.Char_ord" "HOL-Library.List_Lexorder"
begin

section \<open>Strings and paths\<close>

text \<open>
  Python strings are modelled as \<^typ>\<open>string\<close>; the model covers ASCII text, so a
  character, a code point and a byte coincide. The operations of the standard library
  that \<^verbatim>\<open>generate_repo.py\<close> calls on strings are written out below as the library
  documents them (\<^verbatim>\<open>str.lower\<close>, \<^verbatim>\<open>str.split\<close>, \<^verbatim>\<open>str.strip\<close>,
  \<^verbatim>\<open>os.path.splitext\<close> of \<^verbatim>\<open>posixpath\<close>). The content of a file is a
  byte string, which need not be ASCII: a text read from a file is kept as the bytes of
  its UTF-8 encoding, which are also the bytes written when the text is saved.
\<close>

definition char_lower :: "char \<Rightarrow> char" where
  "char_lower c =
     (let n = (of_char c :: nat) in if 65 \<le> n \<and> n \<le> 90 then char_of (n + 32) else c)"

definition lower :: "string \<Rightarrow> string" where
  "lower s = map char_lower s"

text \<open>\<^verbatim>\<open>s.split(c)\<close> for a one-character separator: never the empty list.\<close>

fun split :: "char \<Rightarrow> string \<Rightarrow> string list" where
  "split c [] = [[]]"
| "split c (x # xs) =
     (if x = c then [] # split c xs
      else (case split c xs of [] \<Rightarrow> [[x]] | y # ys \<Rightarrow> (x # y) # ys))"

text \<open>
  \<^verbatim>\<open>str.strip()\<close> removes the white-space characters at both ends. The ASCII ones
  are one byte each; the others are, in UTF-8, the sequences of \<open>wide_spaces\<close>
  (U+0085, U+00A0, U+1680, U+2000 to U+200A, U+2028, U+2029, U+202F, U+205F, U+3000).
  \<open>space_width\<close> is the number of bytes of the white-space character a string starts
  with, or \<open>0\<close>; at the end of a string the sequences are matched backwards.
\<close>

definition isspace :: "char \<Rightarrow> bool" where
  "isspace c = (let n = (of_char c :: nat) in n = 32 \<or> (9 \<le> n \<and> n \<le> 13) \<or> (28 \<le> n \<and> n \<le> 31))"

definition wide_spaces :: "string list" where
  "wide_spaces =
     [[CHR 0xC2, CHR 0x85], [CHR 0xC2, CHR 0xA0], [CHR 0xE1, CHR 0x9A, CHR 0x80],
      [CHR 0xE2, CHR 0x80, CHR 0x80], [CHR 0xE2, CHR 0x80, CHR 0x81],
      [CHR 0xE2, CHR 0x80, CHR 0x82], [CHR 0xE2, CHR 0x80, CHR 0x83],
      [CHR 0xE2, CHR 0x80, CHR 0x84], [CHR 0xE2, CHR 0x80, CHR 0x85],
      [CHR 0xE2, CHR 0x80, CHR 0x86], [CHR 0xE2, CHR 0x80, CHR 0x87],
      [CHR 0xE2, CHR 0x80, CHR 0x88], [CHR 0xE2, CHR 0x80, CHR 0x89],
      [CHR 0xE2, CHR 0x80, CHR 0x8A], [CHR 0xE2, CHR 0x80, CHR 0xA8],
      [CHR 0xE2, CHR 0x80, CHR 0xA9], [CHR 0xE2, CHR 0x80, CHR 0xAF],
      [CHR 0xE2, CHR 0x81, CHR 0x9F], [CHR 0xE3, CHR 0x80, CHR 0x80]]"

definition space_width :: "string list \<Rightarrow> string \<Rightarrow> nat" where
  "space_width wide s =
     (if s \<noteq> [] \<and> isspace (hd s) then 1
      else case filter (\<lambda>q. take (length q) s = q) wide of [] \<Rightarrow> 0 | q # _ \<Rightarrow> length q)"

function lstrip :: "string list \<Rightarrow> string \<Rightarrow> string" where
  "lstrip wide s =
     (if space_width wide s = 0 \<or> s = [] then s else lstrip wide (drop (space_width wide s) s))"
  by pat_completeness auto

termination lstrip
  by (relation "measure (\<lambda>(wide, s). length s)") auto

declare lstrip.simps [simp del]

definition strip :: "string \<Rightarrow> string" where
  "strip s = rev (lstrip (map rev wide_spaces) (rev (lstrip wide_spaces s)))"

text \<open>
  Decoding with \<^verbatim>\<open>encoding="utf-8"\<close> accepts the well-formed byte sequences only:
  no stray continuation byte, no overlong form, no surrogate, nothing above U+10FFFF.
\<close>

definition continuation :: "nat \<Rightarrow> bool" where
  "continuation b = (128 \<le> b \<and> b \<le> 191)"

fun utf8_valid :: "nat list \<Rightarrow> bool" where
  "utf8_valid [] = True"
| "utf8_valid (b # bs) =
     (if b < 128 then utf8_valid bs
      else if 194 \<le> b \<and> b \<le> 223 then
        (case bs of
           c1 # r \<Rightarrow> continuation c1 \<and> utf8_valid r
         | _ \<Rightarrow> False)
      else if 224 \<le> b \<and> b \<le> 239 then
        (case bs of
           c1 # c2 # r \<Rightarrow>
             (if b = 224 then 160 \<le> c1 \<and> c1 \<le> 191
              else if b = 237 then 128 \<le> c1 \<and> c1 \<le> 159
              else continuation c1)
             \<and> continuation c2 \<and> utf8_valid r
         | _ \<Rightarrow> False)
      else if 240 \<le> b \<and> b \<le> 244 then
        (case bs of
           c1 # c2 # c3 # r \<Rightarrow>
             (if b = 240 then 144 \<le> c1 \<and> c1 \<le> 191
              else if b = 244 then 128 \<le> c1 \<and> c1 \<le> 143
              else continuation c1)
             \<and> continuation c2 \<and> continuation c3 \<and> utf8_valid r
         | _ \<Rightarrow> False)
      else False)"

text \<open>
  A file opened in text mode is read with universal newlines: a carriage return
  followed by a line feed, and a carriage return alone, both become a line feed.
\<close>

fun universal_newlines :: "string \<Rightarrow> string" where
  "universal_newlines [] = []"
| "universal_newlines [c] = [if c = CHR 0x0D then CHR ''\<newline>'' else c]"
| "universal_newlines (c # d # cs) =
     (if c = CHR 0x0D \<and> d = CHR ''\<newline>'' then CHR ''\<newline>'' # universal_newlines cs
      else if c = CHR 0x0D then CHR ''\<newline>'' # universal_newlines (d # cs)
      else c # universal_newlines (d # cs))"

text \<open>\<^verbatim>\<open>s.rfind(c)\<close>: the highest index of \<open>c\<close>, or \<open>-1\<close>.\<close>

definition rfind :: "string \<Rightarrow> char \<Rightarrow> int" where
  "rfind s c = (case filter (\<lambda>i. s ! i = c) (rev [0..<length s]) of [] \<Rightarrow> - 1 | i # _ \<Rightarrow> int i)"

text \<open>
  \<^verbatim>\<open>os.path.splitext(p)\<close>: the extension starts at the last dot after the last
  separator, unless only dots come before it in the file name.
\<close>

definition splitext :: "string \<Rightarrow> string \<times> string" where
  "splitext p =
     (let sepIndex = rfind p CHR ''/'';
          dotIndex = rfind p CHR ''.''
      in if dotIndex > sepIndex \<and>
            list_ex (\<lambda>i. p ! i \<noteq> CHR ''.'') [nat (sepIndex + 1)..<nat dotIndex]
         then (take (nat dotIndex) p, drop (nat dotIndex) p)
         else (p, []))"

section \<open>The integrity stamp\<close>

text \<open>
  \<^verbatim>\<open>hashlib.md5\<close> is a library function: the digest of a byte string is a parameter
  \<open>md5\<close> of the model. \<^verbatim>\<open>hexdigest()\<close> writes each byte of the digest as two
  lower-case hexadecimal digits.
\<close>

definition hexdigit :: "nat \<Rightarrow> char" where
  "hexdigit n = ''0123456789abcdef'' ! (n mod 16)"

definition hexdigest :: "string \<Rightarrow> string" where
  "hexdigest d = concat (map (\<lambda>c. [hexdigit (of_char c div 16), hexdigit (of_char c mod 16)]) d)"


section \<open>Paths and the file system\<close>

text \<open>
  A path string denotes a list of components: it is split at \<^verbatim>\<open>/\<close>, empty components
  and \<^verbatim>\<open>.\<close> are dropped and \<^verbatim>\<open>..\<close> removes the component before it (lexical
  resolution, as \<^verbatim>\<open>os.path.normpath\<close>; symbolic links are not modelled). A relative
  path is resolved against the working directory the generator changes to, which is the
  empty list; an absolute path starts with the component \<^verbatim>\<open>/\<close>.
\<close>

type_synonym path = "string list"

definition push :: "path \<Rightarrow> string \<Rightarrow> path" where
  "push st c =
     (if c = [] \<or> c = ''.'' then st
      else if c = ''..'' then
        (if st = [] \<or> last st = ''..'' then st @ [''..'']
         else if st = [''/''] then st
         else butlast st)
      else st @ [c])"

definition resolve :: "string \<Rightarrow> path" where
  "resolve p = foldl push (if p \<noteq> [] \<and> hd p = CHR ''/'' then [''/''] else []) (split CHR ''/'' p)"

definition unsplit :: "path \<Rightarrow> string" where
  "unsplit k = (case k of [] \<Rightarrow> ''.'' | c # cs \<Rightarrow> foldl (\<lambda>s d. s @ ''/'' @ d) c cs)"

definition basename :: "string \<Rightarrow> string" where
  "basename p = last (split CHR ''/'' p)"

definition os_path_join :: "string \<Rightarrow> string \<Rightarrow> string" where
  "os_path_join a b =
     (if b \<noteq> [] \<and> hd b = CHR ''/'' then b
      else if a = [] \<or> last a = CHR ''/'' then a @ b
      else a @ ''/'' @ b)"

definition under :: "path \<Rightarrow> path \<Rightarrow> bool" where
  "under d k = (length d < length k \<and> take (length d) k = d)"

definition ancestors :: "path \<Rightarrow> path list" where
  "ancestors k = map (\<lambda>n. take n k) [1..<Suc (length k)]"

text \<open>The last component of a resolved path ends with the character \<open>c\<close>.\<close>

definition ends_in :: "char \<Rightarrow> path \<Rightarrow> bool" where
  "ends_in c k = (k \<noteq> [] \<and> last k \<noteq> [] \<and> last (last k) = c)"

datatype exn =
    NoSectionError | NoOptionError
  | InterpolationSyntaxError | InterpolationMissingOptionError | InterpolationDepthError
  | UnicodeDecodeError
  | FileNotFoundError | FileExistsError | IsADirectoryError | NotADirectoryError
  | PermissionError | NoSpaceError | SameFileError | ShutilError
  | ExpatError | UnboundLocalError | FormatError

record datetime =
  year :: nat
  month :: nat
  day :: nat
  hour :: nat
  minute :: nat
  second :: nat

text \<open>
  The world the generator runs in: the regular files with their bytes and the
  directories, both keyed by resolved path; the files that cannot be read and the paths
  that cannot be opened for writing (permissions); whether the disk is full; the file
  objects currently open; the lines printed so far; the clock.
\<close>

record world =
  files :: "(path \<times> string) list"
  dirs :: "path list"
  unreadable :: "path list"
  readonly :: "path list"
  disk_full :: bool
  handles :: "path list"
  console :: "string list"
  now :: datetime

type_synonym action = "world \<Rightarrow> exn option \<times> world"

text \<open>Statements in sequence: the first exception ends the sequence.\<close>

fun seq :: "action list \<Rightarrow> action" where
  "seq [] w = (None, w)"
| "seq (a # as) w = (case a w of (Some e, w') \<Rightarrow> (Some e, w') | (None, w') \<Rightarrow> seq as w')"

text \<open>\<^verbatim>\<open>try: a  except: h\<close> with a handler that cannot raise.\<close>

definition catch :: "action \<Rightarrow> (exn \<Rightarrow> world \<Rightarrow> world) \<Rightarrow> world \<Rightarrow> world" where
  "catch a h w = (case a w of (None, w') \<Rightarrow> w' | (Some e, w') \<Rightarrow> h e w')"

definition print :: "string \<Rightarrow> world \<Rightarrow> world" where
  "print s w = w\<lparr>console := console w @ [s]\<rparr>"

text \<open>\<^verbatim>\<open>traceback.format_exc()\<close>, abstracted to the name of the exception.\<close>

fun format_exc :: "exn \<Rightarrow> string" where
  "format_exc NoSectionError = ''configparser.NoSectionError''"
| "format_exc NoOptionError = ''configparser.NoOptionError''"
| "format_exc InterpolationSyntaxError = ''configparser.InterpolationSyntaxError''"
| "format_exc InterpolationMissingOptionError = ''configparser.InterpolationMissingOptionError''"
| "format_exc InterpolationDepthError = ''configparser.InterpolationDepthError''"
| "format_exc UnicodeDecodeError = ''UnicodeDecodeError''"
| "format_exc FileNotFoundError = ''FileNotFoundError''"
| "format_exc FileExistsError = ''FileExistsError''"
| "format_exc IsADirectoryError = ''IsADirectoryError''"
| "format_exc NotADirectoryError = ''NotADirectoryError''"
| "format_exc PermissionError = ''PermissionError''"
| "format_exc NoSpaceError = ''OSError: No space left on device''"
| "format_exc SameFileError = ''shutil.SameFileError''"
| "format_exc ShutilError = ''shutil.Error''"
| "format_exc ExpatError = ''xml.parsers.expat.ExpatError''"
| "format_exc UnboundLocalError = ''UnboundLocalError''"
| "format_exc FormatError = ''KeyError''"

subsection \<open>The operations of \<^verbatim>\<open>os\<close>, \<^verbatim>\<open>os.path\<close> and \<^verbatim>\<open>shutil\<close>\<close>

definition isfile_key :: "world \<Rightarrow> path \<Rightarrow> bool" where
  "isfile_key w k = (map_of (files w) k \<noteq> None)"

definition isdir_key :: "world \<Rightarrow> path \<Rightarrow> bool" where
  "isdir_key w k = (k = [] \<or> k \<in> set (dirs w))"

text \<open>
  A path that ends with a separator, or with the component \<^verbatim>\<open>.\<close> or \<^verbatim>\<open>..\<close>,
  asks for a directory: \<^verbatim>\<open>os.stat\<close> fails on it when it leads to a regular file, so
  that \<^verbatim>\<open>os.path.isfile\<close> and \<^verbatim>\<open>os.path.exists\<close> are false there.
\<close>

definition names_dir :: "string \<Rightarrow> bool" where
  "names_dir p = (last (split CHR ''/'' p) \<in> set [[], ''.'', ''..''])"

definition isfile :: "world \<Rightarrow> string \<Rightarrow> bool" where
  "isfile w p = (p \<noteq> [] \<and> \<not> names_dir p \<and> isfile_key w (resolve p))"

definition isdir :: "world \<Rightarrow> string \<Rightarrow> bool" where
  "isdir w p = (p \<noteq> [] \<and> isdir_key w (resolve p))"

definition exists_path :: "world \<Rightarrow> string \<Rightarrow> bool" where
  "exists_path w p = (isfile w p \<or> isdir w p)"

text \<open>\<^verbatim>\<open>os.listdir(".")\<close>: the first components of the relative paths, each once.\<close>

definition listdir :: "world \<Rightarrow> string list" where
  "listdir w =
     remdups (map hd (filter (\<lambda>k. k \<noteq> [] \<and> hd k \<noteq> ''/'' \<and> hd k \<noteq> ''..'')
                        (map fst (files w) @ dirs w)))"

text \<open>
  Reading the bytes of a whole file (\<^verbatim>\<open>open(p, "rb").read()\<close>); the file object is
  closed again.
\<close>

definition read_file :: "world \<Rightarrow> string \<Rightarrow> exn + string" where
  "read_file w p =
     (let k = resolve p in
      case map_of (files w) k of
        None \<Rightarrow>
          Inl (if isdir_key w k then IsADirectoryError
               else if list_ex (isfile_key w) (ancestors k) then NotADirectoryError
               else FileNotFoundError)
      | Some c \<Rightarrow> if k \<in> set (unreadable w) then Inl PermissionError else Inr c)"

text \<open>
  Reading a whole file in text mode (\<^verbatim>\<open>open(p, "r", encoding="utf-8").read()\<close>):
  the bytes are decoded, which fails when they are not UTF-8, and the line endings are
  translated.
\<close>

definition read_text :: "world \<Rightarrow> string \<Rightarrow> exn + string" where
  "read_text w p =
     (case read_file w p of
        Inl e \<Rightarrow> Inl e
      | Inr bytes \<Rightarrow>
          if utf8_valid (map of_char bytes) then Inr (universal_newlines bytes)
          else Inl UnicodeDecodeError)"

text \<open>
  \<^verbatim>\<open>open(p, "w")\<close> creates or truncates the file and yields an open file object;
  \<^verbatim>\<open>f.write(data)\<close> stores the data unless the disk is full; closing releases the
  file object. A text is stored as its UTF-8 bytes; its line feeds are written as they
  are, as on every system whose path separator is \<^verbatim>\<open>/\<close>. Every path the
  generator opens for writing ends in a file name, not in a separator.
\<close>

definition open_w :: "string \<Rightarrow> action" where
  "open_w p w =
     (let k = resolve p in
      if isdir_key w k then (Some IsADirectoryError, w)
      else if \<not> isdir_key w (butlast k) then
        (Some (if isfile_key w (butlast k) then NotADirectoryError else FileNotFoundError), w)
      else if k \<in> set (readonly w) then (Some PermissionError, w)
      else (None, w\<lparr>files := AList.update k [] (files w), handles := k # handles w\<rparr>))"

definition f_write :: "string \<Rightarrow> string \<Rightarrow> action" where
  "f_write p data w =
     (if disk_full w \<and> data \<noteq> [] then (Some NoSpaceError, w)
      else (None, w\<lparr>files := AList.update (resolve p) data (files w)\<rparr>))"

definition f_close :: "string \<Rightarrow> world \<Rightarrow> world" where
  "f_close p w = w\<lparr>handles := remove1 (resolve p) (handles w)\<rparr>"

text \<open>\<^verbatim>\<open>with open(p, "w") as f: f.write(data)\<close>: the file is closed on both exits.\<close>

definition with_open_w :: "string \<Rightarrow> string \<Rightarrow> action" where
  "with_open_w p data w =
     (case open_w p w of
        (Some e, w') \<Rightarrow> (Some e, w')
      | (None, w1) \<Rightarrow> (case f_write p data w1 of (r, w2) \<Rightarrow> (r, f_close p w2)))"

text \<open>
  \<^verbatim>\<open>os.makedirs(p)\<close>: creates the directory and its missing ancestors; raises when the
  path exists or an ancestor is a file, a regular file followed by the component
  \<^verbatim>\<open>.\<close> being such an ancestor. The empty path names nothing.
\<close>

definition makedirs :: "string \<Rightarrow> action" where
  "makedirs p w =
     (let k = resolve p in
      if p = [] then (Some FileNotFoundError, w)
      else if isfile_key w k \<and> last (split CHR ''/'' p) = ''.'' then (Some NotADirectoryError, w)
      else if isfile_key w k \<or> isdir_key w k then (Some FileExistsError, w)
      else if list_ex (isfile_key w) (ancestors k) then (Some NotADirectoryError, w)
      else (None, w\<lparr>dirs := dirs w @ filter (\<lambda>d. d \<notin> set (dirs w)) (ancestors k)\<rparr>))"

text \<open>\<^verbatim>\<open>os.rename(src, dst)\<close> of a regular file; an existing file at \<open>dst\<close> is replaced.\<close>

definition os_rename :: "string \<Rightarrow> string \<Rightarrow> action" where
  "os_rename src dst w =
     (let ks = resolve src; kd = resolve dst in
      case map_of (files w) ks of
        None \<Rightarrow> (Some FileNotFoundError, w)
      | Some c \<Rightarrow>
          if isdir_key w kd then (Some IsADirectoryError, w)
          else if \<not> isdir_key w (butlast kd) then (Some FileNotFoundError, w)
          else (None, w\<lparr>files := AList.update kd c (AList.delete ks (files w))\<rparr>))"

text \<open>
  \<^verbatim>\<open>shutil.move(src, dst)\<close> of a regular file: into \<open>dst\<close> when that is a directory
  (refusing an existing target there), by \<^verbatim>\<open>os.rename\<close> otherwise. The fall-back to
  copying when the rename fails is left out: here it fails whenever the rename does.
\<close>

definition shutil_move :: "string \<Rightarrow> string \<Rightarrow> action" where
  "shutil_move src dst w =
     (if isdir w dst then
        (let real_dst = os_path_join dst (basename src) in
         if resolve src = resolve dst then os_rename src dst w
         else if exists_path w real_dst then (Some ShutilError, w)
         else os_rename src real_dst w)
      else os_rename src dst w)"

text \<open>\<^verbatim>\<open>shutil.copy(src, dst)\<close>: into \<open>dst\<close> when that is a directory.\<close>

definition shutil_copy :: "string \<Rightarrow> string \<Rightarrow> action" where
  "shutil_copy src dst w =
     (let real_dst = (if isdir w dst then os_path_join dst (basename src) else dst) in
      if resolve src = resolve real_dst \<and> exists_path w src then (Some SameFileError, w)
      else case read_file w src of
        Inl e \<Rightarrow> (Some e, w)
      | Inr c \<Rightarrow> with_open_w real_dst c w)"

subsection \<open>Library functions taken as parameters\<close>

text \<open>
  A parsed XML document, as \<^verbatim>\<open>xml.dom.minidom\<close> presents it: an element has a tag,
  attributes and children.
\<close>

datatype xml = Element string "(string \<times> string) list" "xml list" | CharData string

text \<open>
  The functions of the standard library whose results the generator only passes on:
  the MD5 digest of a byte string, the bytes of a zip archive with given entries (name
  and content, in order), the XML parser (\<open>None\<close> when the text is not well-formed) and
  \<^verbatim>\<open>str.format\<close> with keyword arguments.
\<close>

record lib =
  md5 :: "string \<Rightarrow> string"
  zip_bytes :: "(string \<times> string) list \<Rightarrow> string"
  parse_xml :: "string \<Rightarrow> xml option"
  format_template :: "string \<Rightarrow> (string \<times> string) list \<Rightarrow> exn + string"

text \<open>\<^verbatim>\<open>getElementsByTagName\<close>: the elements with the tag, in document order.\<close>

fun getElementsByTagName :: "xml \<Rightarrow> string \<Rightarrow> xml list" where
  "getElementsByTagName (Element t as cs) name =
     (if t = name then [Element t as cs] else []) @
     concat (map (\<lambda>c. getElementsByTagName c name) cs)"
| "getElementsByTagName (CharData s) name = []"

text \<open>\<^verbatim>\<open>getAttribute\<close>: the empty string when the attribute is absent.\<close>

fun getAttribute :: "xml \<Rightarrow> string \<Rightarrow> string" where
  "getAttribute (Element t as cs) name = (case map_of as name of None \<Rightarrow> [] | Some v \<Rightarrow> v)"
| "getAttribute (CharData s) name = []"

definition minidom_parse :: "lib \<Rightarrow> world \<Rightarrow> string \<Rightarrow> exn + xml" where
  "minidom_parse L w p =
     (case read_file w p of
        Inl e \<Rightarrow> Inl e
      | Inr c \<Rightarrow> (case parse_xml L c of None \<Rightarrow> Inl ExpatError | Some d \<Rightarrow> Inr d))"

text \<open>
  \<^verbatim>\<open>strftime("%Y%m%d%H%M%S")\<close>: four digits for the year (1 to 9999 in
  \<^verbatim>\<open>datetime\<close>), two for each other field.
\<close>

definition digit :: "nat \<Rightarrow> char" where
  "digit n = ''0123456789'' ! (n mod 10)"

definition pad2 :: "nat \<Rightarrow> string" where
  "pad2 n = [digit (n div 10), digit n]"

definition pad4 :: "nat \<Rightarrow> string" where
  "pad4 n = [digit (n div 1000), digit (n div 100), digit (n div 10), digit n]"

definition strftime :: "datetime \<Rightarrow> string" where
  "strftime d = pad4 (year d) @ pad2 (month d) @ pad2 (day d) @
                pad2 (hour d) @ pad2 (minute d) @ pad2 (second d)"

text \<open>
  The values a \<^verbatim>\<open>datetime\<close> can have, and the order of two of them in time.
\<close>

definition valid_datetime :: "datetime \<Rightarrow> bool" where
  "valid_datetime d =
     (1 \<le> year d \<and> year d \<le> 9999 \<and> 1 \<le> month d \<and> month d \<le> 12 \<and> 1 \<le> day d \<and> day d \<le> 31
      \<and> hour d < 24 \<and> minute d < 60 \<and> second d < 60)"

definition earlier :: "datetime \<Rightarrow> datetime \<Rightarrow> bool" where
  "earlier a b =
     (year a < year b \<or> year a = year b \<and>
     (month a < month b \<or> month a = month b \<and>
     (day a < day b \<or> day a = day b \<and>
     (hour a < hour b \<or> hour a = hour b \<and>
     (minute a < minute b \<or> minute a = minute b \<and> second a < second b)))))"

section \<open>The generator\<close>

text \<open>
  The configuration after \<^verbatim>\<open>config.read\<close>: the sections with their options, and
  under the name \<^verbatim>\<open>DEFAULT\<close> the options of the default section, which every
  section inherits.
\<close>

type_synonym config = "(string \<times> (string \<times> string) list) list"

text \<open>
  \<^verbatim>\<open>BasicInterpolation._interpolate_some\<close>, which \<^verbatim>\<open>ConfigParser.get\<close> applies
  to the value it found: the text up to the next \<^verbatim>\<open>%\<close> is kept, \<^verbatim>\<open>%%\<close>
  gives \<^verbatim>\<open>%\<close>, and \<^verbatim>\<open>%(name)s\<close> gives the value of the option \<open>name\<close>
  (in lower case) of the same section or of the defaults, itself interpolated when it
  holds a \<^verbatim>\<open>%\<close>; any other use of \<^verbatim>\<open>%\<close> is an error. The second argument
  counts the levels of nesting still allowed, ten at the start
  (\<^verbatim>\<open>MAX_INTERPOLATION_DEPTH\<close>).
\<close>

function interpolate_some :: "(string \<times> string) list \<Rightarrow> nat \<Rightarrow> string \<Rightarrow> exn + string" where
  "interpolate_some m 0 rest = Inl InterpolationDepthError"
| "interpolate_some m (Suc d) rest =
     (case dropWhile (\<lambda>c. c \<noteq> CHR ''%'') rest of
        [] \<Rightarrow> Inr rest
      | p # after \<Rightarrow>
          (case after of
             [] \<Rightarrow> Inl InterpolationSyntaxError
           | c # after' \<Rightarrow>
               if c = CHR ''%'' then
                 (case interpolate_some m (Suc d) after' of
                    Inl e \<Rightarrow> Inl e
                  | Inr t \<Rightarrow> Inr (takeWhile (\<lambda>c. c \<noteq> CHR ''%'') rest @ ''%'' @ t))
               else if c = CHR ''('' then
                 (case dropWhile (\<lambda>c. c \<noteq> CHR '')'') after' of
                    cl # s # rest' \<Rightarrow>
                      if s = CHR ''s'' \<and> takeWhile (\<lambda>c. c \<noteq> CHR '')'') after' \<noteq> [] then
                        (case map_of m (lower (takeWhile (\<lambda>c. c \<noteq> CHR '')'') after')) of
                           None \<Rightarrow> Inl InterpolationMissingOptionError
                         | Some v \<Rightarrow>
                             (case (if CHR ''%'' \<in> set v then interpolate_some m d v else Inr v) of
                                Inl e \<Rightarrow> Inl e
                              | Inr t1 \<Rightarrow>
                                  (case interpolate_some m (Suc d) rest' of
                                     Inl e \<Rightarrow> Inl e
                                   | Inr t2 \<Rightarrow>
                                       Inr (takeWhile (\<lambda>c. c \<noteq> CHR ''%'') rest @ t1 @ t2))))
                      else Inl InterpolationSyntaxError
                  | _ \<Rightarrow> Inl InterpolationSyntaxError)
               else Inl InterpolationSyntaxError))"
  by pat_completeness auto

termination interpolate_some
proof -
  have shorter: "length ys < length xs" if "dropWhile P xs = y # ys"
    for P and xs :: string and y ys
    using that length_dropWhile_le [of P xs] by simp
  show ?thesis
    by (relation "measures [\<lambda>(m, d, rest). d, \<lambda>(m, d, rest). length rest]")
       (auto dest!: shorter)
qed

declare interpolate_some.simps [simp del]

text \<open>
  \<^verbatim>\<open>config.get(section, option)\<close>. The options it looks in are those of the
  section, then the defaults (\<^verbatim>\<open>_unify_values\<close>); a section that is not there
  raises, unless it is the default section. The option is looked up by its name in lower
  case (\<^verbatim>\<open>optionxform\<close>) and raises when it is not found; the value found is
  interpolated over the same options.
\<close>

definition unify_values :: "config \<Rightarrow> string \<Rightarrow> exn + (string \<times> string) list" where
  "unify_values cfg section =
     (let defaults = (case map_of cfg ''DEFAULT'' of None \<Rightarrow> [] | Some opts \<Rightarrow> opts) in
      case map_of cfg section of
        None \<Rightarrow> if section = ''DEFAULT'' then Inr defaults else Inl NoSectionError
      | Some opts \<Rightarrow> Inr (opts @ defaults))"

definition config_get :: "config \<Rightarrow> string \<Rightarrow> string \<Rightarrow> exn + string" where
  "config_get cfg section option =
     (case unify_values cfg section of
        Inl e \<Rightarrow> Inl e
      | Inr d \<Rightarrow>
          (case map_of d (lower option) of
             None \<Rightarrow> Inl NoOptionError
           | Some v \<Rightarrow> interpolate_some d 10 v))"

definition get_then :: "config \<Rightarrow> string \<Rightarrow> string \<Rightarrow> (string \<Rightarrow> action) \<Rightarrow> action" where
  "get_then cfg section option k w =
     (case config_get cfg section option of Inl e \<Rightarrow> (Some e, w) | Inr v \<Rightarrow> k v w)"

definition lift :: "(world \<Rightarrow> world) \<Rightarrow> action" where
  "lift f w = (None, f w)"

text \<open>The fields of \<^verbatim>\<open>self\<close> that \<^verbatim>\<open>__init__\<close> sets.\<close>

record generator =
  config :: config
  tools_path :: string
  output_path :: string
  excludes :: "string list"

definition save_file :: "string \<Rightarrow> string \<Rightarrow> world \<Rightarrow> world" where
  "save_file data file =
     catch (with_open_w file data)
       (\<lambda>e w. print (''Kodi Repo Generator Exception: \<newline>'' @ format_exc e)
                (print (''**** An error occurred saving '' @ file @ '' file!\<newline>'') w))"

text \<open>
  \<^verbatim>\<open>_pre_run\<close>. The output path is the configured one after an underscore, as a
  rule with its separator at the end: when a regular file has that name,
  \<^verbatim>\<open>os.path.exists\<close> is false and \<^verbatim>\<open>os.makedirs\<close> raises.
\<close>

definition pre_run :: "generator \<Rightarrow> action" where
  "pre_run g w = (if \<not> exists_path w (output_path g) then makedirs (output_path g) w else (None, w))"

definition generate_repo_files :: "lib \<Rightarrow> generator \<Rightarrow> action" where
  "generate_repo_files L g =
     get_then (config g) ''addon'' ''id'' (\<lambda>addonid.
     get_then (config g) ''addon'' ''name'' (\<lambda>name.
     get_then (config g) ''addon'' ''version'' (\<lambda>version.
     get_then (config g) ''addon'' ''author'' (\<lambda>author.
     get_then (config g) ''addon'' ''summary'' (\<lambda>summary.
     get_then (config g) ''addon'' ''description'' (\<lambda>description.
     get_then (config g) ''locations'' ''url'' (\<lambda>url w.
       if isfile w (addonid @ ''/'' @ ''addon.xml'') then (None, w)
       else
         (let w1 = print ''Create repository addon'' w in
          case read_text w1 (tools_path g @ ''/'' @ ''template.xml'') of
            Inl e \<Rightarrow> (Some e, w1)
          | Inr template_xml \<Rightarrow>
              (case format_template L template_xml
                      [(''addonid'', addonid), (''name'', name), (''version'', version),
                       (''author'', author), (''summary'', summary),
                       (''description'', description), (''url'', url),
                       (''output_path'', output_path g)] of
                 Inl e \<Rightarrow> (Some e, w1)
               | Inr repo_xml \<Rightarrow>
                   seq [(\<lambda>w. if \<not> exists_path w addonid then makedirs addonid w else (None, w)),
                        lift (save_file repo_xml (addonid @ ''/'' @ ''addon.xml''))] w1)))))))))"

subsection \<open>The index aggregator and the integrity stamper\<close>

definition addons_header :: string where
  "addons_header = ''<?xml version=\"1.0\" encoding=\"UTF-8\"?>\<newline><addons>\<newline>''"

fun addons_loop :: "string list \<Rightarrow> string \<Rightarrow> world \<Rightarrow> string \<times> world" where
  "addons_loop [] addons_xml w = (addons_xml, w)"
| "addons_loop (addon # rest) addons_xml w =
     (let mpath = os_path_join addon ''addon.xml'' in
      if \<not> isfile w mpath then addons_loop rest addons_xml w
      else case read_text w mpath of
             Inr addon_xml \<Rightarrow> addons_loop rest (addons_xml @ addon_xml @ ''\<newline>\<newline>'') w
           | Inl e \<Rightarrow>
               addons_loop rest addons_xml
                 (print (format_exc e)
                   (print ''Exception Details:''
                     (print (''Excluding '' @ mpath @ '' for '' @ addon) w))))"

definition generate_addons_file :: "generator \<Rightarrow> world \<Rightarrow> world" where
  "generate_addons_file g w =
     (case addons_loop (listdir w) addons_header w of
        (addons_xml, w') \<Rightarrow>
          save_file (strip addons_xml @ ''\<newline></addons>\<newline>'') (output_path g @ ''addons.xml'') w')"

definition generate_md5_file :: "lib \<Rightarrow> generator \<Rightarrow> world \<Rightarrow> world" where
  "generate_md5_file L g =
     catch
       (\<lambda>w. case read_file w (output_path g @ ''addons.xml'') of
               Inl e \<Rightarrow> (Some e, w)
             | Inr bytes \<Rightarrow>
                 (None, save_file (hexdigest (md5 L bytes)) (output_path g @ ''addons.xml.md5'') w))
       (\<lambda>e w. print (''Kodi Repo Generator Exception: \<newline>'' @ format_exc e)
                (print ''**** An error occurred creating addons.xml.md5 file!\<newline>'' w))"

subsection \<open>The package archiver\<close>

text \<open>
  \<^verbatim>\<open>os.walk(path + os.path.sep)\<close> visits every directory under the package directory
  and yields its regular files; \<^verbatim>\<open>os.path.join(root, file)\<close> is then the path of
  the file, and \<^verbatim>\<open>zip.write\<close> stores it under that path, normalised. The model
  takes the files in the order of the file table.
\<close>

definition walk_files :: "world \<Rightarrow> string \<Rightarrow> (path \<times> string) list" where
  "walk_files w p = filter (\<lambda>(k, c). under (resolve p) k) (files w)"

fun zip_write_loop ::
  "world \<Rightarrow> string list \<Rightarrow> (path \<times> string) list \<Rightarrow> (string \<times> string) list
     \<Rightarrow> exn option \<times> (string \<times> string) list" where
  "zip_write_loop w ex [] acc = (None, acc)"
| "zip_write_loop w ex ((k, c) # rest) acc =
     (let file = last k;
          ext = lower (snd (splitext file))
      in if ext \<notin> set ex then
           (if k \<in> set (unreadable w) then (Some PermissionError, acc)
            else zip_write_loop w ex rest (acc @ [(unsplit k, c)]))
         else zip_write_loop w ex rest acc)"

text \<open>
  The \<^verbatim>\<open>with zipfile.ZipFile(filename, 'w')\<close> block: the archive file is created
  first, then the tree is walked; leaving the block writes the archive with the entries
  added so far and closes it, also when a file could not be read.
\<close>

definition make_zip :: "lib \<Rightarrow> generator \<Rightarrow> string \<Rightarrow> string \<Rightarrow> action" where
  "make_zip L g filename path w =
     (case open_w filename w of
        (Some e, w') \<Rightarrow> (Some e, w')
      | (None, w1) \<Rightarrow>
          (case zip_write_loop w1 (excludes g) (walk_files w1 (path @ ''/'')) [] of
             (r, entries) \<Rightarrow>
               (case f_write filename (zip_bytes L entries) w1 of
                  (r', w2) \<Rightarrow> ((case r of None \<Rightarrow> r' | Some e \<Rightarrow> Some e), f_close filename w2))))"

text \<open>
  The body of the \<^verbatim>\<open>try\<close> block of \<^verbatim>\<open>_generate_zip_file\<close>, in two parts: the
  statements that build the archive and move it into the output directory of the
  package, then the copies of the manifest, the icon and the fan art.
\<close>

definition archive_steps :: "lib \<Rightarrow> generator \<Rightarrow> string \<Rightarrow> string \<Rightarrow> string \<Rightarrow> action list" where
  "archive_steps L g path version addonid =
     (let filename = path @ ''-'' @ version @ ''.zip'';
          outdir = output_path g @ addonid
      in [make_zip L g filename path,
          (\<lambda>w. if \<not> exists_path w outdir then makedirs outdir w else (None, w)),
          (\<lambda>w. if isfile w (outdir @ ''/'' @ filename)
                then os_rename (outdir @ ''/'' @ filename)
                       (outdir @ ''/'' @ filename @ ''.'' @ strftime (now w)) w
                else (None, w)),
          shutil_move filename (outdir @ ''/'' @ filename)])"

definition copy_steps :: "generator \<Rightarrow> string \<Rightarrow> action list" where
  "copy_steps g addonid =
     (let outdir = output_path g @ addonid
      in [shutil_copy (addonid @ ''/addon.xml'') (outdir @ ''/'' @ ''addon.xml''),
          lift (catch (shutil_copy (addonid @ ''/icon.png'') (outdir @ ''/'' @ ''icon.png''))
                  (\<lambda>e. print (''**** Icon file missing for '' @ addonid))),
          lift (catch (shutil_copy (addonid @ ''/fanart.jpg'') (outdir @ ''/'' @ ''fanart.jpg''))
                  (\<lambda>e. print (''**** Fanart file missing for '' @ addonid)))])"

definition zip_file_body :: "lib \<Rightarrow> generator \<Rightarrow> string \<Rightarrow> string \<Rightarrow> string \<Rightarrow> action" where
  "zip_file_body L g path version addonid =
     seq (archive_steps L g path version addonid @ copy_steps g addonid)"

definition generate_zip_file ::
  "lib \<Rightarrow> generator \<Rightarrow> string \<Rightarrow> string \<Rightarrow> string \<Rightarrow> world \<Rightarrow> world" where
  "generate_zip_file L g path version addonid w =
     catch (zip_file_body L g path version addonid)
       (\<lambda>e. print (''Kodi Repo Generator Exception: \<newline>'' @ format_exc e))
       (print (''Generate zip file for '' @ addonid @ '' '' @ version) w)"

text \<open>
  The loop of \<^verbatim>\<open>_generate_zip_files\<close>. The local variables \<open>version\<close> and
  \<open>addonid\<close> are unbound until the first \<^verbatim>\<open>addon\<close> element is seen and keep their
  values from one directory to the next: \<open>loc\<close> is \<open>None\<close> while they are unbound.
\<close>

fun zip_files_loop ::
  "lib \<Rightarrow> generator \<Rightarrow> string list \<Rightarrow> (string \<times> string) option \<Rightarrow> world \<Rightarrow> world" where
  "zip_files_loop L g [] loc w = w"
| "zip_files_loop L g (addon # rest) loc w =
     (let mpath = os_path_join addon ''addon.xml'' in
      if \<not> isfile w mpath then zip_files_loop L g rest loc w
      else if \<not> isdir w addon \<or> addon \<in> set [''.git'', output_path g, tools_path g]
      then zip_files_loop L g rest loc w
      else case minidom_parse L w mpath of
        Inl e \<Rightarrow>
          zip_files_loop L g rest loc
            (print (''Kodi Repo Generator Exception: \<newline>'' @ format_exc e) w)
      | Inr document \<Rightarrow>
          (let loc' = foldl (\<lambda>l parent. Some (getAttribute parent ''version'',
                                               getAttribute parent ''id''))
                        loc (getElementsByTagName document ''addon'')
           in case loc' of
                None \<Rightarrow>
                  zip_files_loop L g rest loc'
                    (print (''Kodi Repo Generator Exception: \<newline>'' @ format_exc UnboundLocalError) w)
              | Some (version, addonid) \<Rightarrow>
                  zip_files_loop L g rest loc' (generate_zip_file L g addon version addonid w)))"

definition generate_zip_files :: "lib \<Rightarrow> generator \<Rightarrow> world \<Rightarrow> world" where
  "generate_zip_files L g w = zip_files_loop L g (listdir w) None w"

subsection \<open>The run\<close>

text \<open>
  \<^verbatim>\<open>Generator.__init__\<close>, from the parsed configuration and the absolute path of the
  directory of the script. An exception that leaves it ends the process.
\<close>

definition finished :: "world \<Rightarrow> world" where
  "finished w =
     print ''Always double-check your MD5 Hash using a site like http://onlinemd5.com/ if the repo is not showing files or downloading properly.''
       (print ''Finished updating addons xml, md5 files and zipping addons'' w)"

definition Generator_init :: "lib \<Rightarrow> config \<Rightarrow> string \<Rightarrow> action" where
  "Generator_init L cfg tpath =
     get_then cfg ''locations'' ''output_path'' (\<lambda>op.
     get_then cfg ''addon'' ''excludes'' (\<lambda>ex.
       (let g = \<lparr>config = cfg, tools_path = tpath, output_path = ''_'' @ op,
                 excludes = split CHR '','' ex\<rparr>
        in seq [pre_run g,
                generate_repo_files L g,
                lift (generate_addons_file g),
                lift (generate_md5_file L g),
                lift (generate_zip_files L g),
                lift finished])))"

section \<open>The specification's wording\<close>

text \<open>
  The manifests the aggregator can read, in listing order: the content, as stored, of
  \<^verbatim>\<open>addon.xml\<close> of every listed entry that has one and whose read succeeds.
\<close>

definition readable_manifests :: "world \<Rightarrow> string list \<Rightarrow> string list" where
  "readable_manifests w names =
     concat (map (\<lambda>addon.
        if isfile w (os_path_join addon ''addon.xml'')
        then (case read_text w (os_path_join addon ''addon.xml'') of
                Inl e \<Rightarrow> []
              | Inr text \<Rightarrow>
                  (case read_file w (os_path_join addon ''addon.xml'') of
                     Inr c \<Rightarrow> [c]
                   | Inl e \<Rightarrow> []))
        else []) names)"




text \<open>
  A required option is missing when its section is not in the configuration, or when
  neither the section nor the defaults have it. A configuration error is one of the
  exceptions of \<^verbatim>\<open>configparser\<close>.
\<close>

definition missing :: "config \<Rightarrow> string \<Rightarrow> string \<Rightarrow> bool" where
  "missing cfg section option =
     (case unify_values cfg section of Inl e \<Rightarrow> True | Inr d \<Rightarrow> map_of d (lower option) = None)"


text \<open>
  The run in the specification's words: the stages in the order loader, bootstrapper,
  archiver, aggregator, stamper.
\<close>

definition spec_order_init :: "lib \<Rightarrow> config \<Rightarrow> string \<Rightarrow> action" where
  "spec_order_init L cfg tpath =
     get_then cfg ''locations'' ''output_path'' (\<lambda>op.
     get_then cfg ''addon'' ''excludes'' (\<lambda>ex.
       (let g = \<lparr>config = cfg, tools_path = tpath, output_path = ''_'' @ op,
                 excludes = split CHR '','' ex\<rparr>
        in seq [pre_run g,
                generate_repo_files L g,
                lift (generate_zip_files L g),
                lift (generate_addons_file g),
                lift (generate_md5_file L g),
                lift finished])))"

section \<open>Example inputs\<close>

text \<open>
  A library instance and small working trees on which the properties below are
  evaluated. The parser knows three manifests: a complete one, one whose
  \<^verbatim>\<open>addon\<close> element has no attributes and one without an \<^verbatim>\<open>addon\<close>
  element; every other text is malformed.
\<close>

definition ex_lib :: lib where
  "ex_lib =
     \<lparr>md5 = (\<lambda>s. [char_of (length s), CHR 0xAB]),
      zip_bytes = (\<lambda>es. concat (map (\<lambda>(n, c). n @ '';'') es)),
      parse_xml = (\<lambda>s. if s = ''<addon id=\"A\" version=\"1\"/>''
                           then Some (Element ''addon'' [(''id'', ''A''), (''version'', ''1'')] [])
                         else if s = ''<addon/>'' then Some (Element ''addon'' [] [])
                         else if s = ''<x/>'' then Some (Element ''x'' [] [])
                         else None),
      format_template = (\<lambda>t kv. Inr t)\<rparr>"

definition ex_cfg :: config where
  "ex_cfg =
     [(''addon'', [(''id'', ''repository.x''), (''name'', ''n''), (''version'', ''1.0''),
                   (''author'', ''a''), (''summary'', ''s''), (''description'', ''d''),
                   (''excludes'', ''.pyc,.pyo'')]),
      (''locations'', [(''output_path'', ''repo/''), (''url'', ''u'')])]"

definition ex_gen :: generator where
  "ex_gen = \<lparr>config = ex_cfg, tools_path = ''/r/_tools'', output_path = ''_repo/'',
             excludes = [''.pyc'', ''.pyo'']\<rparr>"

definition ex_clock :: datetime where
  "ex_clock = \<lparr>year = 2024, month = 1, day = 2, hour = 3, minute = 4, second = 5\<rparr>"

definition ex_world :: world where
  "ex_world =
     \<lparr>files = [([''A'', ''addon.xml''], ''<addon id=\"A\" version=\"1\"/>''),
               ([''A'', ''main.py''], ''print''),
               ([''A'', ''lib'', ''x.PYC''], ''zz''),
               ([''/'', ''r'', ''_tools'', ''template.xml''], ''<addon/>'')],
      dirs = [[''A''], [''A'', ''lib''], [''_tools''], [''_repo'']],
      unreadable = [], readonly = [], disk_full = False, handles = [], console = [],
      now = ex_clock\<rparr>"

text \<open>The same tree with a persisted aggregate document.\<close>

definition ex_built :: world where
  "ex_built = ex_world\<lparr>files := files ex_world @ [([''_repo'', ''addons.xml''], ''<addons/>'')]\<rparr>"








text \<open>
  A configuration whose repository is the package \<^verbatim>\<open>A\<close>, and a tree with that one
  package, its manifest unreadable.
\<close>

definition ex_cfg_A :: config where
  "ex_cfg_A =
     [(''addon'', [(''id'', ''A''), (''name'', ''n''), (''version'', ''1.0''),
                   (''author'', ''a''), (''summary'', ''s''), (''description'', ''d''),
                   (''excludes'', ''.pyc'')]),
      (''locations'', [(''output_path'', ''repo/''), (''url'', ''u'')])]"

definition ex_small :: world where
  "ex_small =
     \<lparr>files = [([''A'', ''addon.xml''], ''<x/>'')],
      dirs = [[''A''], [''_repo'']],
      unreadable = [[''A'', ''addon.xml'']], readonly = [], disk_full = False, handles = [],
      console = [], now = ex_clock\<rparr>"

text \<open>
  A tree in which the version-control directory, the output directory and the tooling
  directory each hold a manifest, and a tree with one package whose manifest has an
  \<^verbatim>\<open>addon\<close> element without attributes.
\<close>

definition ex_tools :: world where
  "ex_tools =
     \<lparr>files = [([''.git'', ''addon.xml''], ''<addon id=\"A\" version=\"1\"/>''),
               ([''_repo'', ''addon.xml''], ''<addon id=\"A\" version=\"1\"/>''),
               ([''_tools'', ''addon.xml''], ''<addon id=\"A\" version=\"1\"/>''),
               ([''_tools'', ''generate_repo.py''], ''import os'')],
      dirs = [[''.git''], [''_repo''], [''_tools'']],
      unreadable = [], readonly = [], disk_full = False, handles = [], console = [],
      now = ex_clock\<rparr>"



text \<open>
  The first tree after an earlier run, with the archive of \<^verbatim>\<open>A\<close> in its output
  directory, and a tree with an archive of that name in the working directory.
\<close>

definition ex_rerun :: world where
  "ex_rerun =
     ex_world\<lparr>files := files ex_world @ [([''_repo'', ''A'', ''A-1.zip''], ''first archive'')],
               dirs := dirs ex_world @ [[''_repo'', ''A'']]\<rparr>"

definition ex_alias :: world where
  "ex_alias = ex_world\<lparr>files := files ex_world @ [([''A-1.zip''], ''first archive'')]\<rparr>"



section \<open>Properties\<close>

subsection \<open>What the operations change and what they leave alone\<close>



lemma with_open_w_ok:
  "with_open_w p data w = (None, w') \<Longrightarrow> map_of (files w') (resolve p) = Some data"
  by (auto simp: with_open_w_def open_w_def f_write_def f_close_def Let_def update_conv'
           split: if_splits)

lemma files_print [simp]: "files (print s w) = files w"
  and dirs_print [simp]: "dirs (print s w) = dirs w"
  and unreadable_print [simp]: "unreadable (print s w) = unreadable w"
  and console_print [simp]: "console (print s w) = console w @ [s]"
  by (simp_all add: print_def)

lemma isfile_key_print [simp]: "isfile_key (print s w) = isfile_key w"
  by (rule ext) (simp add: isfile_key_def)

lemma read_file_print [simp]: "read_file (print s w) p = read_file w p"
  by (simp add: read_file_def isdir_key_def Let_def split: option.splits)

lemma isfile_print [simp]: "isfile (print s w) p = isfile w p"
  by (simp add: isfile_def isfile_key_def)



lemma with_open_w_frame:
  "k \<noteq> resolve p \<Longrightarrow> map_of (files (snd (with_open_w p d w))) k = map_of (files w) k"
  by (simp add: with_open_w_def open_w_def f_write_def f_close_def Let_def update_conv')

lemma os_rename_frame:
  "k \<noteq> resolve src \<Longrightarrow> k \<noteq> resolve dst \<Longrightarrow>
   map_of (files (snd (os_rename src dst w))) k = map_of (files w) k"
  by (simp add: os_rename_def Let_def update_conv' delete_conv' split: option.splits)

lemma makedirs_files: "files (snd (makedirs p w)) = files w"
  by (simp add: makedirs_def Let_def)

lemma shutil_move_frame:
  "k \<noteq> resolve src \<Longrightarrow> k \<noteq> resolve dst \<Longrightarrow>
   k \<noteq> resolve (os_path_join dst (basename src)) \<Longrightarrow>
   map_of (files (snd (shutil_move src dst w))) k = map_of (files w) k"
  by (simp add: shutil_move_def Let_def os_rename_frame)

lemma shutil_copy_frame:
  "k \<noteq> resolve dst \<Longrightarrow> k \<noteq> resolve (os_path_join dst (basename src)) \<Longrightarrow>
   map_of (files (snd (shutil_copy src dst w))) k = map_of (files w) k"
  by (simp add: shutil_copy_def Let_def with_open_w_frame split: sum.splits)

lemma make_zip_frame:
  "k \<noteq> resolve fn \<Longrightarrow> map_of (files (snd (make_zip L g fn p w))) k = map_of (files w) k"
  by (simp add: make_zip_def open_w_def f_write_def f_close_def Let_def update_conv'
           split: prod.splits)

lemma make_zip_now: "now (snd (make_zip L g fn p w)) = now w"
  by (simp add: make_zip_def open_w_def f_write_def f_close_def Let_def split: prod.splits)

lemma makedirs_now: "now (snd (makedirs p w)) = now w"
  by (simp add: makedirs_def Let_def)

lemma catch_print_frame:
  "map_of (files (snd (a w))) k = map_of (files w) k \<Longrightarrow>
   map_of (files (catch a (\<lambda>e. print s) w)) k = map_of (files w) k"
  by (cases "a w") (auto simp: catch_def print_def split: option.splits)










subsection \<open>Sequences of statements\<close>

lemma seq_invariant:
  "(\<And>a w. a \<in> set as \<Longrightarrow> P w \<Longrightarrow> P (snd (a w))) \<Longrightarrow> P w \<Longrightarrow> P (snd (seq as w))"
proof (induction as arbitrary: w)
  case Nil
  then show ?case by simp
next
  case (Cons a as)
  have 1: "P (snd (a w))" using Cons.prems by simp
  show ?case
  proof (cases "a w")
    case (Pair r w')
    then have w': "P w'" using 1 by simp
    show ?thesis
    proof (cases r)
      case None
      have "P (snd (seq as w'))" using Cons.IH [of w'] Cons.prems(1) w' by simp
      then show ?thesis using Pair None by simp
    next
      case (Some e)
      then show ?thesis using Pair w' by simp
    qed
  qed
qed

lemma seq_append:
  "seq (as @ bs) w = (case seq as w of (Some e, w') \<Rightarrow> (Some e, w') | (None, w') \<Rightarrow> seq bs w')"
  by (induction as arbitrary: w) (auto split: prod.splits option.splits)

subsection \<open>The last component of a resolved path\<close>

lemma split_nonempty: "split c s \<noteq> []"
  by (induction s) (auto split: list.splits)

lemma split_snoc:
  "x \<noteq> c \<Longrightarrow> split c (s @ [x]) = butlast (split c s) @ [last (split c s) @ [x]]"
proof (induction s)
  case Nil
  then show ?case by simp
next
  case (Cons a s)
  obtain y ys where sp: "split c s = y # ys" using split_nonempty [of c s] by (cases "split c s") auto
  have sp': "split c (s @ [x]) = butlast (y # ys) @ [last (y # ys) @ [x]]"
    using Cons sp by simp
  show ?case
  proof (cases "a = c")
    case True
    then show ?thesis using sp sp' by simp
  next
    case False
    show ?thesis
    proof (cases ys)
      case Nil
      then show ?thesis using False sp sp' by simp
    next
      case (Cons z zs)
      then show ?thesis using False sp sp' by simp
    qed
  qed
qed

lemma push_plain: "nm \<noteq> [] \<Longrightarrow> last nm \<noteq> CHR ''.'' \<Longrightarrow> push st nm = st @ [nm]"
  by (auto simp: push_def)

lemma resolve_ends_in:
  assumes "x \<noteq> CHR ''/''" "x \<noteq> CHR ''.''"
  shows "ends_in x (resolve (s @ [x]))"
proof -
  let ?init = "if s @ [x] \<noteq> [] \<and> hd (s @ [x]) = CHR ''/'' then [''/''] else []"
  have "resolve (s @ [x])
          = foldl push ?init (butlast (split CHR ''/'' s) @ [last (split CHR ''/'' s) @ [x]])"
    using split_snoc [OF assms(1), of s] by (simp only: resolve_def)
  also have "\<dots> = push (foldl push ?init (butlast (split CHR ''/'' s))) (last (split CHR ''/'' s) @ [x])"
    by simp
  also have "\<dots> = foldl push ?init (butlast (split CHR ''/'' s)) @ [last (split CHR ''/'' s) @ [x]]"
    using assms(2) by (intro push_plain) simp_all
  finally show ?thesis by (simp add: ends_in_def)
qed

lemma ends_in_neq: "ends_in c k \<Longrightarrow> ends_in d k' \<Longrightarrow> c \<noteq> d \<Longrightarrow> k \<noteq> k'"
  by (auto simp: ends_in_def)

lemma basename_snoc: "x \<noteq> CHR ''/'' \<Longrightarrow> basename (s @ [x]) = basename s @ [x]"
  using split_snoc [of x "CHR ''/''" s] by (simp add: basename_def)

lemma os_path_join_snoc:
  "x \<noteq> CHR ''/'' \<Longrightarrow> \<exists>t. os_path_join a (b @ [x]) = t @ [x]"
  by (cases b) (auto simp: os_path_join_def)

lemma join_basename_ends_in:
  assumes "x \<noteq> CHR ''/''" "x \<noteq> CHR ''.''"
  shows "ends_in x (resolve (os_path_join a (basename (s @ [x]))))"
proof -
  obtain t where "os_path_join a (basename (s @ [x])) = t @ [x]"
    using os_path_join_snoc [OF assms(1)] basename_snoc [OF assms(1)] by metis
  then show ?thesis using resolve_ends_in [OF assms] by simp
qed

lemma digit_in: "digit n \<in> set ''0123456789''"
proof -
  have "n mod 10 < length ''0123456789''" by simp
  then show ?thesis unfolding digit_def by (rule nth_mem)
qed

lemma strftime_snoc: "\<exists>t. strftime d = t @ [digit (second d)]"
  by (simp add: strftime_def pad2_def pad4_def)

lemma snoc_ends_in:
  "x \<noteq> CHR ''/'' \<Longrightarrow> x \<noteq> CHR ''.'' \<Longrightarrow> p = s @ [x] \<Longrightarrow> ends_in x (resolve p)"
  using resolve_ends_in by simp

lemma snoc_join_ends_in:
  "x \<noteq> CHR ''/'' \<Longrightarrow> x \<noteq> CHR ''.'' \<Longrightarrow> p = s @ [x] \<Longrightarrow>
   ends_in x (resolve (os_path_join a (basename p)))"
  using join_basename_ends_in by simp

lemma strftime_digits: "set (strftime d) \<subseteq> set ''0123456789'' \<and> length (strftime d) = 14"
  using digit_in by (simp add: strftime_def pad2_def pad4_def)








subsection \<open>The time stamp sorts as the time\<close>

lemma digit_nth: "k < 10 \<Longrightarrow> of_char (''0123456789'' ! k) = (48 + k :: nat)"
proof -
  assume "k < 10"
  then have "k \<in> {0, 1, 2, 3, 4, 5, 6, 7, 8, 9}" by auto
  then show ?thesis by auto
qed

lemma of_char_digit: "of_char (digit n) = (48 + n mod 10 :: nat)"
  unfolding digit_def by (rule digit_nth) simp

lemma digit_less: "(digit i < digit j) = (i mod 10 < j mod 10)"
  by (simp add: less_char_def of_char_digit)

lemma digit_eq: "(digit i = digit j) = (i mod 10 = j mod 10)"
proof
  assume "digit i = digit j"
  then have "(of_char (digit i) :: nat) = of_char (digit j)" by simp
  then show "i mod 10 = j mod 10" by (simp add: of_char_digit)
next
  assume "i mod 10 = j mod 10"
  then show "digit i = digit j" by (simp add: digit_def)
qed

lemma lex2:
  fixes q r q' r' :: nat
  assumes "r < b" "r' < b"
  shows "(q < q' \<or> q = q' \<and> r < r') = (b * q + r < b * q' + r')"
proof
  assume "q < q' \<or> q = q' \<and> r < r'"
  then show "b * q + r < b * q' + r'"
  proof
    assume "q < q'"
    then have "Suc q \<le> q'" by simp
    then have "b * Suc q \<le> b * q'" by (rule mult_le_mono2)
    then show ?thesis using assms by simp
  next
    assume "q = q' \<and> r < r'"
    then show ?thesis by simp
  qed
next
  assume l: "b * q + r < b * q' + r'"
  show "q < q' \<or> q = q' \<and> r < r'"
  proof (cases "q < q'")
    case True
    then show ?thesis by simp
  next
    case False
    then have "q' \<le> q" by simp
    then have "b * q' \<le> b * q" by (rule mult_le_mono2)
    then have "q = q' \<and> r < r'"
    proof (cases "q = q'")
      case True
      then show ?thesis using l by simp
    next
      case ne: False
      then have "Suc q' \<le> q" using \<open>q' \<le> q\<close> by simp
      then have "b * Suc q' \<le> b * q" by (rule mult_le_mono2)
      then show ?thesis using l assms by simp
    qed
    then show ?thesis by simp
  qed
qed

lemma eq2:
  fixes q r q' r' :: nat
  assumes "r < b" "r' < b"
  shows "(q = q' \<and> r = r') = (b * q + r = b * q' + r')"
  using lex2 [OF assms, of q q'] lex2 [OF assms(2,1), of q' q] by (metis nat_neq_iff)

lemma two_digits:
  assumes "m < 100" "n < 100"
  shows "((m div 10) mod 10 < (n div 10) mod 10
          \<or> (m div 10) mod 10 = (n div 10) mod 10 \<and> m mod 10 < n mod 10) = (m < (n :: nat))"
proof -
  have a: "(m div 10) mod 10 = m div 10" "(n div 10) mod 10 = n div 10"
    using assms by simp_all
  have "(m div 10 < n div 10 \<or> m div 10 = n div 10 \<and> m mod 10 < n mod 10)
          = (10 * (m div 10) + m mod 10 < 10 * (n div 10) + n mod 10)"
    by (rule lex2) simp_all
  then show ?thesis by (simp add: a)
qed

lemma two_digits_eq:
  assumes "m < 100" "n < 100"
  shows "((m div 10) mod 10 = (n div 10) mod 10 \<and> m mod 10 = n mod 10) = (m = (n :: nat))"
proof -
  have a: "(m div 10) mod 10 = m div 10" "(n div 10) mod 10 = n div 10"
    using assms by simp_all
  have "(m div 10 = n div 10 \<and> m mod 10 = n mod 10)
          = (10 * (m div 10) + m mod 10 = 10 * (n div 10) + n mod 10)"
    by (rule eq2) simp_all
  then show ?thesis by (simp add: a)
qed

lemma pad2_less: "m < 100 \<Longrightarrow> n < 100 \<Longrightarrow> (pad2 m < pad2 n) = (m < n)"
  using two_digits [of m n] by (simp add: pad2_def digit_less digit_eq)

lemma pad2_eq: "m < 100 \<Longrightarrow> n < 100 \<Longrightarrow> (pad2 m = pad2 n) = (m = n)"
  using two_digits_eq [of m n] by (simp add: pad2_def digit_eq)

lemma append_less_same_length:
  "length a = length b \<Longrightarrow> ((a @ x < b @ y) = (a < b \<or> a = b \<and> x < y))"
  for a b x y :: "'a :: linorder list"
  by (induction a b rule: list_induct2) auto

lemma pad4_split: "pad4 m = pad2 (m div 100) @ pad2 (m mod 100)"
proof -
  have 1: "m div 100 div 10 = m div 1000"
    using div_mult2_eq [of m 100 10] by simp
  have "m mod 100 = 10 * (m div 10 mod 10) + m mod 10"
    using mod_mult2_eq [of m 10 10] by simp
  then have 2: "m mod 100 div 10 = m div 10 mod 10"
    by simp
  have 3: "m mod 100 mod 10 = m mod 10"
    by (rule mod_mod_cancel) simp
  have "digit (m mod 100 div 10) = digit (m div 10)" "digit (m mod 100) = digit m"
    using 2 3 by (simp_all add: digit_eq)
  then show ?thesis by (simp add: pad4_def pad2_def 1)
qed

lemma pad4_less:
  assumes "m < 10000" "n < 10000"
  shows "(pad4 m < pad4 n) = (m < n)"
proof -
  have d: "m div 100 < 100" "n div 100 < 100" "m mod 100 < 100" "n mod 100 < 100"
    using assms by simp_all
  have l: "length (pad2 (m div 100)) = length (pad2 (n div 100))"
    by (simp add: pad2_def)
  have "(pad4 m < pad4 n)
          = (m div 100 < n div 100 \<or> m div 100 = n div 100 \<and> m mod 100 < n mod 100)"
    unfolding pad4_split append_less_same_length [OF l]
    by (simp add: pad2_less [OF d(1,2)] pad2_eq [OF d(1,2)] pad2_less [OF d(3,4)])
  also have "\<dots> = (100 * (m div 100) + m mod 100 < 100 * (n div 100) + n mod 100)"
    by (rule lex2) simp_all
  finally show ?thesis by simp
qed

lemma pad4_eq:
  assumes "m < 10000" "n < 10000"
  shows "(pad4 m = pad4 n) = (m = n)"
proof -
  have d: "m div 100 < 100" "n div 100 < 100" "m mod 100 < 100" "n mod 100 < 100"
    using assms by simp_all
  have l: "length (pad2 (m div 100)) = length (pad2 (n div 100))"
    by (simp add: pad2_def)
  have "(pad4 m = pad4 n) = (m div 100 = n div 100 \<and> m mod 100 = n mod 100)"
    unfolding pad4_split using l
    by (simp add: pad2_eq [OF d(1,2)] pad2_eq [OF d(3,4)])
  also have "\<dots> = (100 * (m div 100) + m mod 100 = 100 * (n div 100) + n mod 100)"
    by (rule eq2) simp_all
  finally show ?thesis by simp
qed

lemma strftime_sorts:
  assumes "valid_datetime a" "valid_datetime b"
  shows "(strftime a < strftime b) = earlier a b"
proof -
  have y: "year a < 10000" "year b < 10000"
    using assms by (simp_all add: valid_datetime_def)
  have mo: "month a < 100" "month b < 100" and da: "day a < 100" "day b < 100"
    and ho: "hour a < 100" "hour b < 100" and mi: "minute a < 100" "minute b < 100"
    and se: "second a < 100" "second b < 100"
    using assms by (simp_all add: valid_datetime_def)
  have l4: "length (pad4 (year a)) = length (pad4 (year b))" by (simp add: pad4_def)
  have l2: "length (pad2 m) = length (pad2 n)" for m n by (simp add: pad2_def)
  show ?thesis
    unfolding strftime_def earlier_def
      append_less_same_length [OF l4] append_less_same_length [OF l2]
      pad4_less [OF y] pad4_eq [OF y] pad2_less [OF mo] pad2_eq [OF mo]
      pad2_less [OF da] pad2_eq [OF da] pad2_less [OF ho] pad2_eq [OF ho]
      pad2_less [OF mi] pad2_eq [OF mi] pad2_less [OF se]
    by (rule refl)
qed

subsection \<open>The integrity stamp\<close>

lemma hexdigit_in: "hexdigit n \<in> set ''0123456789abcdef''"
proof -
  have "n mod 16 < length ''0123456789abcdef''" by simp
  then show ?thesis unfolding hexdigit_def by (rule nth_mem)
qed

lemma hexdigest_chars: "set (hexdigest d) \<subseteq> set ''0123456789abcdef''"
  unfolding hexdigest_def using hexdigit_in by (induction d) auto


text \<open>
  C8. The stamper hashes the bytes of the aggregate document as they are in the file,
  writes the digest in lower-case hexadecimal to \<^verbatim>\<open>addons.xml.md5\<close> beside it, and
  two runs that find the same bytes write the same stamp, whatever else differs between
  their worlds. The write is the scoped writer's, so the stamp is in the file when that
  write succeeds.
\<close>

theorem stamp_is_hex_of_persisted_bytes:
  assumes "read_file w1 (output_path g @ ''addons.xml'') = Inr bytes"
      and "read_file w2 (output_path g @ ''addons.xml'') = Inr bytes"
      and "fst (with_open_w (output_path g @ ''addons.xml.md5'') (hexdigest (md5 L bytes)) w1) = None"
      and "fst (with_open_w (output_path g @ ''addons.xml.md5'') (hexdigest (md5 L bytes)) w2) = None"
  shows "map_of (files (generate_md5_file L g w1)) (resolve (output_path g @ ''addons.xml.md5''))
           = Some (hexdigest (md5 L bytes))
       \<and> map_of (files (generate_md5_file L g w2)) (resolve (output_path g @ ''addons.xml.md5''))
           = map_of (files (generate_md5_file L g w1)) (resolve (output_path g @ ''addons.xml.md5''))
       \<and> set (hexdigest (md5 L bytes)) \<subseteq> set ''0123456789abcdef''"
proof -
  have stamp: "map_of (files (generate_md5_file L g w)) (resolve (output_path g @ ''addons.xml.md5''))
                 = Some (hexdigest (md5 L bytes))"
    if r: "read_file w (output_path g @ ''addons.xml'') = Inr bytes"
    and ok: "fst (with_open_w (output_path g @ ''addons.xml.md5'') (hexdigest (md5 L bytes)) w) = None"
    for w
  proof -
    obtain w' where eq:
      "with_open_w (output_path g @ ''addons.xml.md5'') (hexdigest (md5 L bytes)) w = (None, w')"
      using ok
      by (cases "with_open_w (output_path g @ ''addons.xml.md5'') (hexdigest (md5 L bytes)) w") simp
    have "generate_md5_file L g w = w'"
      using r eq by (simp add: generate_md5_file_def catch_def save_file_def)
    then show ?thesis using with_open_w_ok [OF eq] by simp
  qed
  show ?thesis using stamp [OF assms(1,3)] stamp [OF assms(2,4)] hexdigest_chars by simp
qed

theorem stamp_is_hex_of_persisted_bytes_witness:
  "read_file ex_built (output_path ex_gen @ ''addons.xml'') = Inr ''<addons/>''
   \<and> read_file (ex_built\<lparr>console := [''earlier run'']\<rparr>) (output_path ex_gen @ ''addons.xml'')
       = Inr ''<addons/>''
   \<and> map_of (files (generate_md5_file ex_lib ex_gen ex_built))
        (resolve (output_path ex_gen @ ''addons.xml.md5'')) = Some ''09ab''
   \<and> map_of (files (generate_md5_file ex_lib ex_gen (ex_built\<lparr>console := [''earlier run'']\<rparr>)))
        (resolve (output_path ex_gen @ ''addons.xml.md5'')) = Some ''09ab''"
proof -
  have h1: "read_file ex_built (output_path ex_gen @ ''addons.xml'') = Inr ''<addons/>''"
    by code_simp
  have h2: "read_file (ex_built\<lparr>console := [''earlier run'']\<rparr>)
              (output_path ex_gen @ ''addons.xml'') = Inr ''<addons/>''"
    by code_simp
  have h3: "fst (with_open_w (output_path ex_gen @ ''addons.xml.md5'')
                  (hexdigest (md5 ex_lib ''<addons/>'')) ex_built) = None"
    by code_simp
  have h4: "fst (with_open_w (output_path ex_gen @ ''addons.xml.md5'')
                  (hexdigest (md5 ex_lib ''<addons/>''))
                  (ex_built\<lparr>console := [''earlier run'']\<rparr>)) = None"
    by code_simp
  have v: "hexdigest (md5 ex_lib ''<addons/>'') = ''09ab''"
    by code_simp
  show ?thesis
    using stamp_is_hex_of_persisted_bytes [OF h1 h2 h3 h4] h1 h2 v by simp
qed

subsection \<open>The scoped writer never raises\<close>



subsection \<open>The aggregate document\<close>

lemma read_text_print [simp]: "read_text (print s w) p = read_text w p"
  by (simp add: read_text_def)



lemma readable_manifests_print [simp]: "readable_manifests (print s w) names = readable_manifests w names"
  by (simp add: readable_manifests_def cong: if_cong sum.case_cong)
















subsection \<open>The entries of an archive\<close>









subsection \<open>The run: order of the stages and configuration errors\<close>












text \<open>
  C3, as the code has it. Once the two options read by \<^verbatim>\<open>__init__\<close> are there and
  the output directory and the repository manifest are in place, the run is the
  aggregator, then the stamper, then the archiver, then the closing messages, each
  applied to the world the one before left: the archiver is the last stage, not the
  third.
\<close>

theorem stage_order:
  assumes "config_get cfg ''locations'' ''output_path'' = Inr op"
      and "config_get cfg ''addon'' ''excludes'' = Inr ex"
      and "g = \<lparr>config = cfg, tools_path = tpath, output_path = ''_'' @ op,
                 excludes = split CHR '','' ex\<rparr>"
      and "pre_run g w = (None, w1)"
      and "generate_repo_files L g w1 = (None, w2)"
  shows "Generator_init L cfg tpath w
           = (None, finished (generate_zip_files L g
                                (generate_md5_file L g (generate_addons_file g w2))))"
  using assms by (simp add: Generator_init_def get_then_def lift_def Let_def)

theorem stage_order_witness:
  "pre_run ex_gen ex_world = (None, ex_world)
   \<and> fst (generate_repo_files ex_lib ex_gen ex_world) = None
   \<and> Generator_init ex_lib ex_cfg ''/r/_tools'' ex_world
       = (None, finished (generate_zip_files ex_lib ex_gen
                            (generate_md5_file ex_lib ex_gen
                               (generate_addons_file ex_gen
                                  (snd (generate_repo_files ex_lib ex_gen ex_world))))))"
proof -
  have 1: "config_get ex_cfg ''locations'' ''output_path'' = Inr ''repo/''"
    by code_simp
  have 2: "config_get ex_cfg ''addon'' ''excludes'' = Inr ''.pyc,.pyo''"
    by code_simp
  have 3: "ex_gen = \<lparr>config = ex_cfg, tools_path = ''/r/_tools'', output_path = ''_'' @ ''repo/'',
                      excludes = split CHR '','' ''.pyc,.pyo''\<rparr>"
    by code_simp
  have 4: "pre_run ex_gen ex_world = (None, ex_world)"
    by code_simp
  have f: "fst (generate_repo_files ex_lib ex_gen ex_world) = None"
    by code_simp
  have 5: "generate_repo_files ex_lib ex_gen ex_world
             = (None, snd (generate_repo_files ex_lib ex_gen ex_world))"
    using f by (simp add: prod_eq_iff)
  show ?thesis using stage_order [OF 1 2 3 4 5] 4 f by simp
qed

text \<open>
  With an unreadable manifest both the aggregator and the archiver print; the lines of
  the aggregator come first, and the run differs from the one in the order of the
  specification.
\<close>

theorem stage_order_counterexample:
  "console (snd (Generator_init ex_lib ex_cfg_A ''/r/_tools'' ex_small))
     = [''Excluding A/addon.xml for A'', ''Exception Details:'', ''PermissionError'',
        ''Kodi Repo Generator Exception: \<newline>PermissionError'',
        ''Finished updating addons xml, md5 files and zipping addons'',
        ''Always double-check your MD5 Hash using a site like http://onlinemd5.com/ if the repo is not showing files or downloading properly.'']
   \<and> console (snd (spec_order_init ex_lib ex_cfg_A ''/r/_tools'' ex_small))
     = [''Kodi Repo Generator Exception: \<newline>PermissionError'',
        ''Excluding A/addon.xml for A'', ''Exception Details:'', ''PermissionError'',
        ''Finished updating addons xml, md5 files and zipping addons'',
        ''Always double-check your MD5 Hash using a site like http://onlinemd5.com/ if the repo is not showing files or downloading properly.'']
   \<and> Generator_init ex_lib ex_cfg_A ''/r/_tools'' ex_small
       \<noteq> spec_order_init ex_lib ex_cfg_A ''/r/_tools'' ex_small"
proof -
  have c1: "console (snd (Generator_init ex_lib ex_cfg_A ''/r/_tools'' ex_small))
     = [''Excluding A/addon.xml for A'', ''Exception Details:'', ''PermissionError'',
        ''Kodi Repo Generator Exception: \<newline>PermissionError'',
        ''Finished updating addons xml, md5 files and zipping addons'',
        ''Always double-check your MD5 Hash using a site like http://onlinemd5.com/ if the repo is not showing files or downloading properly.'']"
    by code_simp
  have c2: "console (snd (spec_order_init ex_lib ex_cfg_A ''/r/_tools'' ex_small))
     = [''Kodi Repo Generator Exception: \<newline>PermissionError'',
        ''Excluding A/addon.xml for A'', ''Exception Details:'', ''PermissionError'',
        ''Finished updating addons xml, md5 files and zipping addons'',
        ''Always double-check your MD5 Hash using a site like http://onlinemd5.com/ if the repo is not showing files or downloading properly.'']"
    by code_simp
  have "console (snd (Generator_init ex_lib ex_cfg_A ''/r/_tools'' ex_small))
          \<noteq> console (snd (spec_order_init ex_lib ex_cfg_A ''/r/_tools'' ex_small))"
    unfolding c1 c2 by simp
  then have "Generator_init ex_lib ex_cfg_A ''/r/_tools'' ex_small
       \<noteq> spec_order_init ex_lib ex_cfg_A ''/r/_tools'' ex_small"
    by auto
  then show ?thesis using c1 c2 by simp
qed




subsection \<open>The archiver's scan and the manifests it meets\<close>

text \<open>
  C6. The scan compares the name of each listed entry with \<^verbatim>\<open>.git\<close>, with the
  output path and with the path of the tooling directory. The tooling path is absolute
  and the output path is the configured one with its separator, so a listed name equals
  neither: in the tree below, where each of the three directories holds a manifest, the
  tooling directory and the output directory are archived and only \<^verbatim>\<open>.git\<close> is
  left out.
\<close>

theorem tools_and_output_directories_archived:
  "listdir ex_tools = [''.git'', ''_repo'', ''_tools'']
   \<and> output_path ex_gen = ''_repo/'' \<and> tools_path ex_gen = ''/r/_tools''
   \<and> map_of (files (generate_zip_files ex_lib ex_gen ex_tools)) [''_repo'', ''A'', ''_tools-1.zip'']
       = Some (zip_bytes ex_lib [(''_tools/addon.xml'', ''<addon id=\"A\" version=\"1\"/>''),
                                 (''_tools/generate_repo.py'', ''import os'')])
   \<and> map_of (files (generate_zip_files ex_lib ex_gen ex_tools)) [''_repo'', ''A'', ''_repo-1.zip'']
       = Some (zip_bytes ex_lib [(''_repo/addon.xml'', ''<addon id=\"A\" version=\"1\"/>'')])
   \<and> map_of (files (generate_zip_files ex_lib ex_gen ex_tools)) [''_repo'', ''A'', ''.git-1.zip'']
       = None"
  by code_simp





subsection \<open>An archive of the same name\<close>

lemma names_dir_snoc:
  assumes "x \<noteq> CHR ''/''" "x \<noteq> CHR ''.''" "p = s @ [x]"
  shows "\<not> names_dir p"
proof -
  have "last (split CHR ''/'' p) = last (split CHR ''/'' s) @ [x]"
    using split_snoc [OF assms(1), of s] assms(3) by simp
  moreover have "l @ [x] \<notin> set [[], ''.'', ''..'']" for l
    using assms(2) by (cases l; cases "tl l") auto
  ultimately show ?thesis by (simp add: names_dir_def)
qed

lemma rename_step:
  assumes old: "map_of (files w) (resolve tg) = Some old" and ne: "\<not> names_dir tg"
  shows "(fst ((\<lambda>w. if isfile w tg then os_rename tg (tg @ ''.'' @ strftime (now w)) w
                      else (None, w)) w) = None
            \<longrightarrow> map_of (files (snd ((\<lambda>w. if isfile w tg then os_rename tg (tg @ ''.'' @ strftime (now w)) w
                      else (None, w)) w))) (resolve (tg @ ''.'' @ strftime (now w))) = Some old)
       \<and> (fst ((\<lambda>w. if isfile w tg then os_rename tg (tg @ ''.'' @ strftime (now w)) w
                      else (None, w)) w) \<noteq> None
            \<longrightarrow> snd ((\<lambda>w. if isfile w tg then os_rename tg (tg @ ''.'' @ strftime (now w)) w
                      else (None, w)) w) = w)"
proof -
  have "tg \<noteq> []" using ne by (auto simp: names_dir_def)
  then have f: "isfile w tg" using old ne by (simp add: isfile_def isfile_key_def)
  show ?thesis using f old by (simp add: os_rename_def Let_def update_conv')
qed

text \<open>
  C5, as the code has it. Let an archive of the same name exist in the output directory
  of the package, and let it not be the very file the archiver builds in the working
  directory. When the run for the package ends, the content of that archive is in the
  file renamed with the time stamp, or, if the run failed before the renaming, still in
  the file itself; when no statement of the run failed, it is in the renamed file.
  The stamp is fourteen decimal digits: year, month, day, hour, minute, second; as
  strings, the stamps of two times are in the order of the times.
\<close>

theorem existing_archive_renamed:
  assumes fn: "fn = path @ ''-'' @ version @ ''.zip''"
      and tg: "tg = (output_path g @ addonid) @ ''/'' @ fn"
      and bk: "bk = tg @ ''.'' @ strftime (now w)"
      and old: "map_of (files w) (resolve tg) = Some old"
      and apart: "resolve fn \<noteq> resolve tg"
  shows "(map_of (files (generate_zip_file L g path version addonid w)) (resolve bk) = Some old
          \<or> map_of (files (generate_zip_file L g path version addonid w)) (resolve tg) = Some old)
       \<and> (fst (zip_file_body L g path version addonid
                  (print (''Generate zip file for '' @ addonid @ '' '' @ version) w)) = None
            \<longrightarrow> map_of (files (generate_zip_file L g path version addonid w)) (resolve bk) = Some old)
       \<and> set (strftime (now w)) \<subseteq> set ''0123456789'' \<and> length (strftime (now w)) = 14
       \<and> (\<forall>later. valid_datetime (now w) \<longrightarrow> valid_datetime later \<longrightarrow>
             (strftime (now w) < strftime later) = earlier (now w) later)"
proof -
  define od where "od = output_path g @ addonid"
  define w0 where "w0 = print (''Generate zip file for '' @ addonid @ '' '' @ version) w"
  define a1 where "a1 = make_zip L g fn path"
  define a2 where "a2 = (\<lambda>w. if \<not> exists_path w od then makedirs od w else (None, w))"
  define a3 where "a3 = (\<lambda>w. if isfile w tg then os_rename tg (tg @ ''.'' @ strftime (now w)) w
                              else (None, w))"
  define a4 where "a4 = shutil_move fn tg"
  define a5 where "a5 = shutil_copy (addonid @ ''/addon.xml'') (od @ ''/'' @ ''addon.xml'')"
  define a6 where "a6 = lift (catch (shutil_copy (addonid @ ''/icon.png'') (od @ ''/'' @ ''icon.png''))
                          (\<lambda>e. print (''**** Icon file missing for '' @ addonid)))"
  define a7 where "a7 = lift (catch (shutil_copy (addonid @ ''/fanart.jpg'') (od @ ''/'' @ ''fanart.jpg''))
                          (\<lambda>e. print (''**** Fanart file missing for '' @ addonid)))"
  define P0 where "P0 = (\<lambda>w' :: world. map_of (files w') (resolve tg) = Some old \<and> now w' = now w)"
  define P where "P = (\<lambda>w' :: world. map_of (files w') (resolve bk) = Some old)"
  have body: "zip_file_body L g path version addonid = seq ([a1, a2] @ [a3] @ [a4, a5, a6, a7])"
    by (simp add: zip_file_body_def archive_steps_def copy_steps_def Let_def
          a1_def a2_def a3_def a4_def a5_def a6_def a7_def od_def fn tg cong: if_cong)
  \<comment> \<open>the keys written after the renaming end in a letter, the new name in a digit\<close>
  obtain t where ts: "strftime (now w) = t @ [digit (second (now w))]"
    using strftime_snoc by blast
  let ?d = "digit (second (now w))"
  have d: "?d \<noteq> CHR ''/''" "?d \<noteq> CHR ''.''" "?d \<noteq> CHR ''p''" "?d \<noteq> CHR ''l''" "?d \<noteq> CHR ''g''"
    using digit_in [of "second (now w)"] by auto
  have e_bk: "ends_in ?d (resolve bk)"
    by (rule snoc_ends_in [OF d(1,2), of _ "tg @ ''.'' @ t"]) (simp add: bk ts)
  have e_fn: "ends_in CHR ''p'' (resolve fn)"
    by (rule snoc_ends_in [of _ _ "path @ ''-'' @ version @ ''.zi''"]) (simp_all add: fn)
  have e_tg: "ends_in CHR ''p'' (resolve tg)"
    by (rule snoc_ends_in [of _ _ "od @ ''/'' @ path @ ''-'' @ version @ ''.zi''"])
       (simp_all add: fn tg od_def)
  have e_tj: "ends_in CHR ''p'' (resolve (os_path_join tg (basename fn)))"
    by (rule snoc_join_ends_in [of _ _ "path @ ''-'' @ version @ ''.zi''"]) (simp_all add: fn)
  have e_x: "ends_in CHR ''l'' (resolve (od @ ''/'' @ ''addon.xml''))"
    by (rule snoc_ends_in [of _ _ "od @ ''/'' @ ''addon.xm''"]) simp_all
  have e_xj: "ends_in CHR ''l'' (resolve (os_path_join (od @ ''/'' @ ''addon.xml'')
                                            (basename (addonid @ ''/addon.xml''))))"
    by (rule snoc_join_ends_in [of _ _ "addonid @ ''/addon.xm''"]) simp_all
  have e_i: "ends_in CHR ''g'' (resolve (od @ ''/'' @ ''icon.png''))"
    by (rule snoc_ends_in [of _ _ "od @ ''/'' @ ''icon.pn''"]) simp_all
  have e_ij: "ends_in CHR ''g'' (resolve (os_path_join (od @ ''/'' @ ''icon.png'')
                                            (basename (addonid @ ''/icon.png''))))"
    by (rule snoc_join_ends_in [of _ _ "addonid @ ''/icon.pn''"]) simp_all
  have e_f: "ends_in CHR ''g'' (resolve (od @ ''/'' @ ''fanart.jpg''))"
    by (rule snoc_ends_in [of _ _ "od @ ''/'' @ ''fanart.jp''"]) simp_all
  have e_fj: "ends_in CHR ''g'' (resolve (os_path_join (od @ ''/'' @ ''fanart.jpg'')
                                            (basename (addonid @ ''/fanart.jpg''))))"
    by (rule snoc_join_ends_in [of _ _ "addonid @ ''/fanart.jp''"]) simp_all
  note neq = ends_in_neq [OF e_bk e_fn d(3)] ends_in_neq [OF e_bk e_tg d(3)]
             ends_in_neq [OF e_bk e_tj d(3)] ends_in_neq [OF e_bk e_x d(4)]
             ends_in_neq [OF e_bk e_xj d(4)] ends_in_neq [OF e_bk e_i d(5)]
             ends_in_neq [OF e_bk e_ij d(5)] ends_in_neq [OF e_bk e_f d(5)]
             ends_in_neq [OF e_bk e_fj d(5)]
  \<comment> \<open>before the renaming\<close>
  have P0_w0: "P0 w0" using old by (simp add: P0_def w0_def print_def)
  have P0_12: "P0 (snd (a w'))" if "a \<in> set [a1, a2]" "P0 w'" for a w'
  proof -
    have "P0 (snd (a1 w'))"
      using that(2) apart make_zip_frame [of "resolve tg" fn L g path w'] make_zip_now [of L g fn path w']
      by (simp add: P0_def a1_def)
    moreover have "P0 (snd (a2 w'))"
      using that(2) makedirs_files [of od w'] makedirs_now [of od w'] by (simp add: P0_def a2_def)
    ultimately show ?thesis using that(1) by auto
  qed
  have P_47: "P (snd (a w'))" if "a \<in> set [a4, a5, a6, a7]" "P w'" for a w'
  proof -
    have 4: "P (snd (a4 w'))"
      using that(2) shutil_move_frame [OF neq(1,2,3), of w'] by (simp add: P_def a4_def)
    have 5: "P (snd (a5 w'))"
      using that(2) shutil_copy_frame [OF neq(4,5), of w'] by (simp add: P_def a5_def)
    have 6: "P (snd (a6 w'))"
      using that(2) catch_print_frame [where a = "shutil_copy (addonid @ ''/icon.png'') (od @ ''/'' @ ''icon.png'')" and w = w' and k = "resolve bk", OF shutil_copy_frame [OF neq(6,7), of w']]
      by (simp add: P_def a6_def lift_def)
    have 7: "P (snd (a7 w'))"
      using that(2) catch_print_frame [where a = "shutil_copy (addonid @ ''/fanart.jpg'') (od @ ''/'' @ ''fanart.jpg'')" and w = w' and k = "resolve bk", OF shutil_copy_frame [OF neq(8,9), of w']]
      by (simp add: P_def a7_def lift_def)
    show ?thesis using that(1) 4 5 6 7 by auto
  qed
  obtain r12 w2 where s12: "seq [a1, a2] w0 = (r12, w2)" by (cases "seq [a1, a2] w0") simp
  have "P0 (snd (seq [a1, a2] w0))"
  proof (rule seq_invariant [where P = P0])
    fix a w' assume "a \<in> set [a1, a2]" "P0 w'"
    then show "P0 (snd (a w'))" by (rule P0_12)
  next
    show "P0 w0" by (rule P0_w0)
  qed
  then have P0_w2: "P0 w2" using s12 by simp
  obtain r3 w3 where s3: "a3 w2 = (r3, w3)" by (cases "a3 w2") simp
  have tg_ne: "\<not> names_dir tg"
    by (rule names_dir_snoc [where s = "od @ ''/'' @ path @ ''-'' @ version @ ''.zi''"])
       (simp_all add: fn tg od_def)
  have step3: "(r3 = None \<longrightarrow> P w3) \<and> (r3 \<noteq> None \<longrightarrow> w3 = w2)"
    using rename_step [of w2 tg old, OF _ tg_ne] P0_w2 s3 by (simp add: P0_def P_def a3_def bk)
  obtain r47 w7 where s47: "seq [a4, a5, a6, a7] w3 = (r47, w7)"
    by (cases "seq [a4, a5, a6, a7] w3") simp
  have P_w7: "P w7" if w3: "P w3"
  proof -
    have "P (snd (seq [a4, a5, a6, a7] w3))"
    proof (rule seq_invariant [where P = P])
      fix a w' assume "a \<in> set [a4, a5, a6, a7]" "P w'"
      then show "P (snd (a w'))" by (rule P_47)
    next
      show "P w3" by (rule w3)
    qed
    then show ?thesis using s47 by simp
  qed
  have run: "zip_file_body L g path version addonid w0
               = (case r12 of Some e \<Rightarrow> (Some e, w2)
                  | None \<Rightarrow> (case r3 of Some e \<Rightarrow> (Some e, w3) | None \<Rightarrow> (r47, w7)))"
    unfolding body seq_append [of "[a1, a2]"] seq_append [of "[a3]"]
    using s12 s3 s47 by (simp split: option.splits)
  let ?wb = "snd (zip_file_body L g path version addonid w0)"
  have fin: "files (generate_zip_file L g path version addonid w) = files ?wb"
    unfolding generate_zip_file_def w0_def [symmetric]
    by (cases "zip_file_body L g path version addonid w0")
       (auto simp: catch_def split: option.splits)
  have disj: "P ?wb \<or> map_of (files ?wb) (resolve tg) = Some old"
    using run P0_w2 step3 P_w7 by (auto simp: P0_def split: option.splits)
  have succ: "fst (zip_file_body L g path version addonid w0) = None \<Longrightarrow> P ?wb"
    using run step3 P_w7 by (auto split: option.splits)
  show ?thesis
    using disj succ fin strftime_digits [of "now w"] strftime_sorts [of "now w"]
    by (simp add: P_def w0_def)
qed

theorem existing_archive_renamed_witness:
  "map_of (files ex_rerun) (resolve ''_repo/A/A-1.zip'') = Some ''first archive''
   \<and> resolve ''A-1.zip'' \<noteq> resolve ''_repo/A/A-1.zip''
   \<and> map_of (files (generate_zip_file ex_lib ex_gen ''A'' ''1'' ''A'' ex_rerun))
        [''_repo'', ''A'', ''A-1.zip.20240102030405''] = Some ''first archive''
   \<and> strftime (now ex_rerun) < strftime (ex_clock\<lparr>second := 6\<rparr>)"
proof -
  have fn: "''A-1.zip'' = ''A'' @ ''-'' @ ''1'' @ ''.zip''"
    by simp
  have tg: "''_repo/A/A-1.zip'' = (output_path ex_gen @ ''A'') @ ''/'' @ ''A-1.zip''"
    by (simp add: ex_gen_def)
  have bk: "''_repo/A/A-1.zip.20240102030405'' = ''_repo/A/A-1.zip'' @ ''.'' @ strftime (now ex_rerun)"
    by code_simp
  have old: "map_of (files ex_rerun) (resolve ''_repo/A/A-1.zip'') = Some ''first archive''"
    by code_simp
  have apart: "resolve ''A-1.zip'' \<noteq> resolve ''_repo/A/A-1.zip''"
    by code_simp
  have succ: "fst (zip_file_body ex_lib ex_gen ''A'' ''1'' ''A''
                     (print (''Generate zip file for '' @ ''A'' @ '' '' @ ''1'') ex_rerun)) = None"
    by code_simp
  have k: "resolve ''_repo/A/A-1.zip.20240102030405'' = [''_repo'', ''A'', ''A-1.zip.20240102030405'']"
    by code_simp
  have v: "valid_datetime (now ex_rerun)" "valid_datetime (ex_clock\<lparr>second := 6\<rparr>)"
    by (simp_all add: valid_datetime_def ex_rerun_def ex_world_def ex_clock_def)
  have e: "earlier (now ex_rerun) (ex_clock\<lparr>second := 6\<rparr>)"
    by (simp add: earlier_def ex_rerun_def ex_world_def ex_clock_def)
  note t = existing_archive_renamed [OF fn tg bk old apart, of ex_lib]
  have 1: "map_of (files (generate_zip_file ex_lib ex_gen ''A'' ''1'' ''A'' ex_rerun))
          (resolve ''_repo/A/A-1.zip.20240102030405'') = Some ''first archive''"
    using t succ by blast
  have 2: "strftime (now ex_rerun) < strftime (ex_clock\<lparr>second := 6\<rparr>)"
    using t v e by blast
  show ?thesis using old apart k 1 2 by simp
qed

text \<open>
  With the declared id \<^verbatim>\<open>..\<close> the output directory of the package is the working
  directory: the archive found there is overwritten when the new one is created, and
  it is the new one that is renamed.
\<close>

theorem archive_in_working_directory_counterexample:
  "map_of (files ex_alias) (resolve (output_path ex_gen @ ''..'' @ ''/'' @ ''A-1.zip''))
     = Some ''first archive''
   \<and> ''first archive'' \<notin> set (map snd (files (generate_zip_file ex_lib ex_gen ''A'' ''1'' ''..'' ex_alias)))
   \<and> map_of (files (generate_zip_file ex_lib ex_gen ''A'' ''1'' ''..'' ex_alias))
        [''A-1.zip.20240102030405'']
       = Some (zip_bytes ex_lib [(''A/addon.xml'', ''<addon id=\"A\" version=\"1\"/>''),
                                 (''A/main.py'', ''print'')])"
  by code_simp

subsection \<open>The source of the copies\<close>




end
